theory Spec2Isabelle
  imports Main "HOL-Library.Sublist"
begin

section \<open>Data model (frontend/src/types/index.ts)\<close>

text \<open>
  The enumerations of the TypeScript sources. \<open>RegulatoryFramework\<close> declares
  \<open>FDA_21_CFR_PART_211\<close> as an alias with the same string value as
  \<open>FDA_21_CFR_211\<close>; at run time both are one value, so they are one constructor.
\<close>

datatype SOPStatus =
  PENDING | PROCESSING | COMPLETED | FAILED | UNDER_REVIEW | APPROVED | REJECTED

datatype SOPPriority = LOW | MEDIUM | HIGH | CRITICAL

datatype PharmaceuticalDepartment =
  PRODUCTION | QUALITY_CONTROL | QUALITY_ASSURANCE | REGULATORY_AFFAIRS
  | MANUFACTURING | PACKAGING | WAREHOUSE | MAINTENANCE

datatype RegulatoryFramework =
  FDA_21_CFR_211 | ICH_Q7 | ICH_Q10 | WHO_GMP | EMA_GMP | ISO_9001 | ISO_14001 | ISO_13485

record SOPSection =
  sec_title :: string
  sec_content :: string
  sec_order :: int

text \<open>
  \<open>SOPData\<close> is the \<open>data\<close> prop of the review step (the wizard's
  \<open>SOPCreationData\<close> has the same fields). The array fields are declared non-optional and
  an array is always truthy in JavaScript, so a guard \<open>data.xs && data.xs.length > 0\<close> is
  the test on the length. The department select offers an empty entry, and the checks test
  department and priority for truthiness, so these two fields are optional here:
  \<open>None\<close> is the falsy value, every enumeration value is a non-empty string and hence
  truthy.
\<close>

record SOPData =
  title :: string
  description :: string
  department :: "PharmaceuticalDepartment option"
  priority :: "SOPPriority option"
  frameworks :: "RegulatoryFramework list"
  customRequirements :: string
  complianceNotes :: string
  sections :: "SOPSection list"
  estimatedDuration :: string
  equipmentRequired :: "string list"
  materialsRequired :: "string list"
  safetyConsiderations :: string
  qualityCheckpoints :: "string list"

section \<open>Validation checks of the review step (ReviewAndGenerationStep)\<close>

datatype check_status = Pass | Fail | Warning

record check =
  name :: string
  status :: check_status
  message :: string

record validation_results =
  passed :: nat
  failed :: nat
  warnings :: nat
  checks :: "check list"

text \<open>Decimal rendering of a length inside a template string.\<close>

fun string_of_nat :: "nat \<Rightarrow> string" where
  "string_of_nat n =
     (if n < 10 then [''0123456789'' ! n]
      else string_of_nat (n div 10) @ [''0123456789'' ! (n mod 10)])"

declare string_of_nat.simps [simp del]

text \<open>JavaScript truthiness of a string: exactly the non-empty strings are truthy.\<close>

definition truthy :: "string \<Rightarrow> bool" where
  "truthy s = (s \<noteq> [])"

definition basic_info_present :: "SOPData \<Rightarrow> bool" where
  "basic_info_present d =
     (truthy (title d) \<and> truthy (description d) \<and> department d \<noteq> None \<and> priority d \<noteq> None)"

definition build_checks :: "SOPData \<Rightarrow> check list" where
  "build_checks d =
    [ \<lparr> name = ''Basic Information'',
        status = (if basic_info_present d then Pass else Fail),
        message = (if basic_info_present d
                   then ''All required basic information provided''
                   else ''Missing required basic information fields'') \<rparr>,
      \<lparr> name = ''Regulatory Framework'',
        status = (if length (frameworks d) > 0 then Pass else Fail),
        message = (if length (frameworks d) > 0
                   then string_of_nat (length (frameworks d)) @ '' regulatory framework(s) selected''
                   else ''At least one regulatory framework must be selected'') \<rparr>,
      \<lparr> name = ''SOP Sections'',
        status = (if length (sections d) \<ge> 3 then Pass else Warning),
        message = (if length (sections d) \<ge> 3
                   then string_of_nat (length (sections d)) @ '' sections defined''
                   else ''Consider adding more sections for comprehensive coverage'') \<rparr>,
      \<lparr> name = ''Safety Considerations'',
        status = (if truthy (safetyConsiderations d) then Pass else Warning),
        message = (if truthy (safetyConsiderations d)
                   then ''Safety considerations documented''
                   else ''Safety considerations not specified - consider adding for pharmaceutical compliance'') \<rparr>,
      \<lparr> name = ''Quality Checkpoints'',
        status = (if length (qualityCheckpoints d) > 0 then Pass else Warning),
        message = (if length (qualityCheckpoints d) > 0
                   then string_of_nat (length (qualityCheckpoints d)) @ '' quality checkpoint(s) defined''
                   else ''Consider adding quality control checkpoints'') \<rparr>,
      \<lparr> name = ''Equipment Requirements'',
        status = (if length (equipmentRequired d) > 0 then Pass else Warning),
        message = (if length (equipmentRequired d) > 0
                   then string_of_nat (length (equipmentRequired d)) @ '' equipment item(s) specified''
                   else ''No equipment requirements specified'') \<rparr>,
      \<lparr> name = ''Pharmaceutical Compliance'',
        status = (if FDA_21_CFR_211 \<in> set (frameworks d) then Pass else Warning),
        message = (if FDA_21_CFR_211 \<in> set (frameworks d)
                   then ''FDA 21 CFR Part 211 compliance included''
                   else ''Consider including FDA 21 CFR Part 211 for US pharmaceutical compliance'') \<rparr> ]"

definition count_status :: "check_status \<Rightarrow> check list \<Rightarrow> nat" where
  "count_status st cs = length (filter (\<lambda>c. status c = st) cs)"

definition performValidation :: "SOPData \<Rightarrow> validation_results" where
  "performValidation d =
     (let cs = build_checks d in
      \<lparr> passed = count_status Pass cs,
        failed = count_status Fail cs,
        warnings = count_status Warning cs,
        checks = cs \<rparr>)"

text \<open>
  The component holds the results in a state cell initialised with zero counts and no
  checks; the effect, run whenever \<open>data\<close> changes, overwrites the cell.
\<close>

record review_state =
  validationResults :: validation_results

definition initial_review_state :: review_state where
  "initial_review_state =
     \<lparr> validationResults = \<lparr> passed = 0, failed = 0, warnings = 0, checks = [] \<rparr> \<rparr>"

definition validation_effect :: "SOPData \<Rightarrow> review_state \<Rightarrow> review_state" where
  "validation_effect d st = st \<lparr> validationResults := performValidation d \<rparr>"

text \<open>The \<open>disabled\<close> attribute of the Generate button.\<close>

definition generate_disabled :: "bool \<Rightarrow> validation_results \<Rightarrow> bool \<Rightarrow> bool" where
  "generate_disabled canGenerate vr isGenerating =
     (\<not> canGenerate \<or> failed vr > 0 \<or> isGenerating)"

section \<open>The creation wizard (SOPCreationWizard)\<close>

definition initial_wizard_data :: SOPData where
  "initial_wizard_data =
     \<lparr> title = '''', description = '''',
       department = Some PRODUCTION, priority = Some MEDIUM,
       frameworks = [FDA_21_CFR_211],
       customRequirements = '''', complianceNotes = '''',
       sections =
         [ \<lparr> sec_title = ''Purpose'', sec_content = '''', sec_order = 1 \<rparr>,
           \<lparr> sec_title = ''Scope'', sec_content = '''', sec_order = 2 \<rparr>,
           \<lparr> sec_title = ''Responsibilities'', sec_content = '''', sec_order = 3 \<rparr>,
           \<lparr> sec_title = ''Procedure'', sec_content = '''', sec_order = 4 \<rparr>,
           \<lparr> sec_title = ''Documentation'', sec_content = '''', sec_order = 5 \<rparr> ],
       estimatedDuration = '''',
       equipmentRequired = [], materialsRequired = [],
       safetyConsiderations = '''', qualityCheckpoints = [] \<rparr>"

text \<open>
  \<open>s.title.trim().length > 0\<close>: the title does not consist of white space only. A
  string here is the UTF-8 bytes of the text, so the white space and line terminators that
  \<open>trim\<close> strips are listed by their encodings: tab, line feed, vertical tab, form feed,
  carriage return and space (one byte each), the no-break space U+00A0 (two bytes), and
  U+1680, U+2000 to U+200A, U+2028, U+2029, U+202F, U+205F, U+3000 and U+FEFF (three
  bytes each).
\<close>

definition whitespace_encodings :: "string list" where
  "whitespace_encodings =
     [ [CHR 0x09], [CHR 0x0A], [CHR 0x0B], [CHR 0x0C], [CHR 0x0D], [CHR 0x20],
       [CHR 0xC2, CHR 0xA0],
       [CHR 0xE1, CHR 0x9A, CHR 0x80],
       [CHR 0xE2, CHR 0x80, CHR 0x80], [CHR 0xE2, CHR 0x80, CHR 0x81],
       [CHR 0xE2, CHR 0x80, CHR 0x82], [CHR 0xE2, CHR 0x80, CHR 0x83],
       [CHR 0xE2, CHR 0x80, CHR 0x84], [CHR 0xE2, CHR 0x80, CHR 0x85],
       [CHR 0xE2, CHR 0x80, CHR 0x86], [CHR 0xE2, CHR 0x80, CHR 0x87],
       [CHR 0xE2, CHR 0x80, CHR 0x88], [CHR 0xE2, CHR 0x80, CHR 0x89],
       [CHR 0xE2, CHR 0x80, CHR 0x8A],
       [CHR 0xE2, CHR 0x80, CHR 0xA8], [CHR 0xE2, CHR 0x80, CHR 0xA9],
       [CHR 0xE2, CHR 0x80, CHR 0xAF],
       [CHR 0xE2, CHR 0x81, CHR 0x9F],
       [CHR 0xE3, CHR 0x80, CHR 0x80],
       [CHR 0xEF, CHR 0xBB, CHR 0xBF] ]"

text \<open>The number of bytes of the white space character a string starts with, 0 if none.\<close>

definition whitespace_prefix :: "string \<Rightarrow> nat" where
  "whitespace_prefix s =
     (case find (\<lambda>w. take (length w) s = w) whitespace_encodings of
        None \<Rightarrow> 0
      | Some w \<Rightarrow> length w)"

function all_whitespace :: "string \<Rightarrow> bool" where
  "all_whitespace s =
     (if s = [] then True
      else if whitespace_prefix s = 0 then False
      else all_whitespace (drop (whitespace_prefix s) s))"
  by pat_completeness auto
termination
  by (relation "measure length") auto

declare all_whitespace.simps [simp del]

definition trim_nonempty :: "string \<Rightarrow> bool" where
  "trim_nonempty s = (\<not> all_whitespace s)"

definition validateStep :: "nat \<Rightarrow> SOPData \<Rightarrow> bool" where
  "validateStep stepIndex d =
     (if stepIndex = 0 then
        truthy (title d) \<and> truthy (description d) \<and> department d \<noteq> None \<and> priority d \<noteq> None
      else if stepIndex = 1 then length (frameworks d) > 0
      else if stepIndex = 2 then
        length (sections d) > 0 \<and> list_all (\<lambda>s. trim_nonempty (sec_title s)) (sections d)
      else if stepIndex = 3 then True
      else False)"

text \<open>The \<open>canGenerate\<close> prop handed to the review step.\<close>

definition canGenerate :: "SOPData \<Rightarrow> bool" where
  "canGenerate d = (validateStep 0 d \<and> validateStep 1 d \<and> validateStep 2 d)"

text \<open>\<open>handleNext\<close> on the four-step wizard: the new value of \<open>currentStep\<close>.\<close>

definition handleNext :: "nat \<Rightarrow> SOPData \<Rightarrow> nat" where
  "handleNext currentStep d =
     (if currentStep < 4 - 1 \<and> validateStep currentStep d then currentStep + 1
      else currentStep)"

section \<open>Framework selection (RegulatoryFrameworkStep)\<close>

record framework_option =
  fo_value :: RegulatoryFramework
  fo_label :: string
  fo_mandatory :: bool

definition frameworkOptions :: "framework_option list" where
  "frameworkOptions =
     [ \<lparr> fo_value = FDA_21_CFR_211, fo_label = ''FDA 21 CFR Part 211'', fo_mandatory = True \<rparr>,
       \<lparr> fo_value = ICH_Q7, fo_label = ''ICH Q7'', fo_mandatory = False \<rparr>,
       \<lparr> fo_value = WHO_GMP, fo_label = ''WHO GMP'', fo_mandatory = False \<rparr>,
       \<lparr> fo_value = EMA_GMP, fo_label = ''EMA GMP'', fo_mandatory = False \<rparr>,
       \<lparr> fo_value = ISO_9001, fo_label = ''ISO 9001'', fo_mandatory = False \<rparr> ]"

text \<open>
  \<open>frameworkOptions.find(...)?.mandatory\<close>: the flag of the first option with that value,
  \<open>undefined\<close> (falsy) when no option has it.
\<close>

definition mandatoryFramework :: "RegulatoryFramework \<Rightarrow> bool" where
  "mandatoryFramework framework =
     (case find (\<lambda>opt. fo_value opt = framework) frameworkOptions of
        None \<Rightarrow> False
      | Some opt \<Rightarrow> fo_mandatory opt)"

text \<open>
  The handler reads the form value \<open>frameworks\<close> and writes it back with \<open>setValue\<close>;
  where it calls no \<open>setValue\<close> the value stays as it was.
\<close>

definition handleFrameworkToggle ::
  "RegulatoryFramework \<Rightarrow> RegulatoryFramework list \<Rightarrow> RegulatoryFramework list" where
  "handleFrameworkToggle framework currentFrameworks =
     (let isSelected = framework \<in> set currentFrameworks in
      if isSelected then
        (if \<not> mandatoryFramework framework
         then filter (\<lambda>f. f \<noteq> framework) currentFrameworks
         else currentFrameworks)
      else currentFrameworks @ [framework])"

text \<open>The \<open>disabled\<close> attribute of the framework step's Continue (submit) button.\<close>

definition framework_submit_disabled :: "bool \<Rightarrow> RegulatoryFramework list \<Rightarrow> bool" where
  "framework_submit_disabled canProceed selectedFrameworks =
     (\<not> canProceed \<or> length selectedFrameworks = 0)"

section \<open>Content details (ContentDetailsStep)\<close>

record content_state =
  sectionFields :: "SOPSection list"
  equipmentItems :: "string list"
  materialItems :: "string list"
  checkpointItems :: "string list"

definition default_sections :: "SOPSection list" where
  "default_sections =
     [ \<lparr> sec_title = ''Purpose'', sec_content = '''', sec_order = 1 \<rparr>,
       \<lparr> sec_title = ''Scope'', sec_content = '''', sec_order = 2 \<rparr>,
       \<lparr> sec_title = ''Responsibilities'', sec_content = '''', sec_order = 3 \<rparr>,
       \<lparr> sec_title = ''Procedure'', sec_content = '''', sec_order = 4 \<rparr>,
       \<lparr> sec_title = ''Documentation'', sec_content = '''', sec_order = 5 \<rparr> ]"

definition default_content_state :: content_state where
  "default_content_state =
     \<lparr> sectionFields = default_sections,
       equipmentItems = [], materialItems = [], checkpointItems = [] \<rparr>"

definition addSection :: "content_state \<Rightarrow> content_state" where
  "addSection st =
     st \<lparr> sectionFields := sectionFields st @
            [\<lparr> sec_title = '''', sec_content = '''',
               sec_order = int (length (sectionFields st)) + 1 \<rparr>] \<rparr>"

text \<open>
  \<open>removeSection\<close> is the \<open>remove\<close> of the form library's field array: it drops the
  field at the given position and leaves the other fields as they are. The button that
  calls it is rendered for each field, with that field's position, while there is more than
  one field.
\<close>

definition removeSection :: "nat \<Rightarrow> content_state \<Rightarrow> content_state" where
  "removeSection index st =
     st \<lparr> sectionFields := take index (sectionFields st) @ drop (Suc index) (sectionFields st) \<rparr>"

definition click_removeSection :: "nat \<Rightarrow> content_state \<Rightarrow> content_state" where
  "click_removeSection index st =
     (if length (sectionFields st) > 1 \<and> index < length (sectionFields st)
      then removeSection index st else st)"

text \<open>\<open>xs.filter((_, i) => i !== index)\<close>: keep the elements whose position is not the index.\<close>

definition filter_index :: "int \<Rightarrow> 'a list \<Rightarrow> 'a list" where
  "filter_index index xs =
     map snd (filter (\<lambda>p. int (fst p) \<noteq> index) (enumerate 0 xs))"

definition addEquipment :: "content_state \<Rightarrow> content_state" where
  "addEquipment st = st \<lparr> equipmentItems := equipmentItems st @ [''''] \<rparr>"

definition removeEquipmentItem :: "int \<Rightarrow> content_state \<Rightarrow> content_state" where
  "removeEquipmentItem index st =
     st \<lparr> equipmentItems := filter_index index (equipmentItems st) \<rparr>"

definition addMaterial :: "content_state \<Rightarrow> content_state" where
  "addMaterial st = st \<lparr> materialItems := materialItems st @ [''''] \<rparr>"

definition removeMaterialItem :: "int \<Rightarrow> content_state \<Rightarrow> content_state" where
  "removeMaterialItem index st =
     st \<lparr> materialItems := filter_index index (materialItems st) \<rparr>"

definition addCheckpoint :: "content_state \<Rightarrow> content_state" where
  "addCheckpoint st = st \<lparr> checkpointItems := checkpointItems st @ [''''] \<rparr>"

definition removeCheckpointItem :: "int \<Rightarrow> content_state \<Rightarrow> content_state" where
  "removeCheckpointItem index st =
     st \<lparr> checkpointItems := filter_index index (checkpointItems st) \<rparr>"

text \<open>A user session on the section list: any sequence of the two section operations.\<close>

datatype section_op = AddSection | RemoveSection nat

fun apply_section_op :: "content_state \<Rightarrow> section_op \<Rightarrow> content_state" where
  "apply_section_op st AddSection = addSection st"
| "apply_section_op st (RemoveSection i) = click_removeSection i st"

definition run_section_ops :: "section_op list \<Rightarrow> content_state \<Rightarrow> content_state" where
  "run_section_ops ops st = foldl apply_section_op st ops"

text \<open>The property the section list is meant to keep: \<open>order\<close> is the 1-based position.\<close>

definition order_is_position :: "SOPSection list \<Rightarrow> bool" where
  "order_is_position xs = (map sec_order xs = map int [1 ..< Suc (length xs)])"

section \<open>The job pipeline behind the API (backend)\<close>

text \<open>
  Modelled from the spec: the fixed penalties of the Compliance Validator's scoring rule (the
  backend module that computes \<open>fda_compliance_score\<close> is not among the sources): 25
  for a \<open>fail\<close>, 5 for a \<open>warning\<close>, nothing for a \<open>pass\<close>.
\<close>

fun penalty :: "check_status \<Rightarrow> int" where
  "penalty Fail = 25"
| "penalty Warning = 5"
| "penalty Pass = 0"

text \<open>
  Modelled from the spec: the scoring rule of the Compliance Validator (same missing backend
  module). The score starts at 100, each check subtracts its penalty, and the result is
  clamped to the interval from 0 to 100.
\<close>

definition compliance_score :: "check list \<Rightarrow> int" where
  "compliance_score cs = max 0 (min 100 (foldl (\<lambda>s c. s - penalty (status c)) 100 cs))"

text \<open>
  Modelled from the spec: the error taxonomy, the review outcomes and the data model of the
  pipeline (content snapshot, audit entry, job, and the job store with its append-only audit
  trail); the backend that declares them is not among the sources. Only the attributes the
  operations below read or write are kept, and an audit entry records the status its action
  led to, if it changed the status.
\<close>

datatype engine_error = EngineUnavailable | EngineRejected | EngineTimeout

datatype orch_error = InvalidRequest | InvalidTransition | NotFound

datatype review_outcome = Approve | Reject

datatype action_kind = CreateAction | TransitionAction | ValidationAction | ReviewAction

record ContentSnapshot =
  snap_sections :: "(string \<times> string) list"
  snap_engine :: string

record AuditEntry =
  audit_job :: nat
  audit_action :: action_kind
  audit_actor :: string
  audit_after :: "SOPStatus option"

record Job =
  job_request :: SOPData
  job_status :: SOPStatus
  job_snapshot :: "ContentSnapshot option"
  job_score :: "int option"
  job_issues :: "check list"
  job_error :: "engine_error option"
  job_attempts :: nat
  job_reviewer :: "string option"

record store =
  jobs :: "nat \<rightharpoonup> Job"
  audit :: "AuditEntry list"
  next_id :: nat

definition empty_store :: store where
  "empty_store = \<lparr> jobs = Map.empty, audit = [], next_id = 0 \<rparr>"

text \<open>
  Modelled from the spec: the shape validation of Submit (backend request handler, not among
  the sources): non-empty title and description, at least one section, at least one
  regulatory framework.
\<close>

definition request_shape_ok :: "SOPData \<Rightarrow> bool" where
  "request_shape_ok r =
     (title r \<noteq> [] \<and> description r \<noteq> [] \<and> sections r \<noteq> [] \<and> frameworks r \<noteq> [])"

text \<open>
  Modelled from the spec: the job Submit creates (backend, not among the sources): status
  \<open>PENDING\<close>, no snapshot, score, issues or error yet, no attempt made.
\<close>

definition new_job :: "SOPData \<Rightarrow> Job" where
  "new_job r =
     \<lparr> job_request = r, job_status = PENDING, job_snapshot = None, job_score = None,
       job_issues = [], job_error = None, job_attempts = 0, job_reviewer = None \<rparr>"

text \<open>
  Modelled from the spec: Submit of the Job Orchestrator (backend, not among the sources).
  On a valid request it creates a job in \<open>PENDING\<close>, writes an audit entry and returns
  the job identifier; otherwise it fails with \<open>InvalidRequest\<close> and changes nothing.
\<close>

definition Submit :: "SOPData \<Rightarrow> store \<Rightarrow> (orch_error + nat) \<times> store" where
  "Submit r s =
     (if \<not> request_shape_ok r then (Inl InvalidRequest, s)
      else (Inr (next_id s),
            s \<lparr> jobs := (jobs s)(next_id s \<mapsto> new_job r),
                audit := audit s @
                  [\<lparr> audit_job = next_id s, audit_action = CreateAction,
                     audit_actor = ''requester'', audit_after = Some PENDING \<rparr>],
                next_id := Suc (next_id s) \<rparr>))"

text \<open>
  Modelled from the spec: the retry policy of Advance (backend, not among the sources). The
  engine is a parameter giving the outcome of each numbered attempt. \<open>EngineRejected\<close> is
  permanent and ends the loop at once; the other failures are retried while attempts are
  left. The result comes with the number of attempts made.
\<close>

fun generate_with_retry ::
  "(nat \<Rightarrow> engine_error + ContentSnapshot) \<Rightarrow> nat \<Rightarrow> nat \<Rightarrow> (engine_error + ContentSnapshot) \<times> nat"
where
  "generate_with_retry engine attempt left =
     (case engine attempt of
        Inr snap \<Rightarrow> (Inr snap, attempt)
      | Inl EngineRejected \<Rightarrow> (Inl EngineRejected, attempt)
      | Inl e \<Rightarrow>
          (case left of
             0 \<Rightarrow> (Inl e, attempt)
           | Suc l \<Rightarrow> generate_with_retry engine (Suc attempt) l))"

declare generate_with_retry.simps [simp del]

text \<open>
  Modelled from the spec: the retry bound of three attempts and the audit entries Advance
  writes, one per transition and one for the completed validation (backend, not among the
  sources).
\<close>

definition max_attempts :: nat where
  "max_attempts = 3"

definition transition_entry :: "nat \<Rightarrow> SOPStatus \<Rightarrow> AuditEntry" where
  "transition_entry jid st =
     \<lparr> audit_job = jid, audit_action = TransitionAction,
       audit_actor = ''orchestrator'', audit_after = Some st \<rparr>"

definition validation_entry :: "nat \<Rightarrow> AuditEntry" where
  "validation_entry jid =
     \<lparr> audit_job = jid, audit_action = ValidationAction,
       audit_actor = ''orchestrator'', audit_after = None \<rparr>"

text \<open>
  Modelled from the spec: Advance of the Job Orchestrator (backend, not among the sources).
  It moves a \<open>PENDING\<close> job to \<open>PROCESSING\<close> and calls the engine, at most three
  attempts. A failure moves the job to \<open>FAILED\<close> with the error. A success is validated
  (the seven checks on the job's metadata, scored by the rule above) and the job moves to
  \<open>COMPLETED\<close> whatever the score, the checks that did not pass attached as issues. Each
  transition and the validation are written to the audit trail.
\<close>

definition Advance ::
  "(nat \<Rightarrow> SOPData \<Rightarrow> engine_error + ContentSnapshot) \<Rightarrow> nat \<Rightarrow> store \<Rightarrow> (orch_error + unit) \<times> store"
where
  "Advance engine jid s =
     (case jobs s jid of
        None \<Rightarrow> (Inl NotFound, s)
      | Some j \<Rightarrow>
          if job_status j \<noteq> PENDING then (Inl InvalidTransition, s)
          else
            (case generate_with_retry (\<lambda>a. engine a (job_request j)) 1 (max_attempts - 1) of
               (Inl e, n) \<Rightarrow>
                 (Inr (),
                  s \<lparr> jobs := (jobs s)(jid \<mapsto>
                         j \<lparr> job_status := FAILED, job_error := Some e, job_attempts := n \<rparr>),
                      audit := audit s @
                         [transition_entry jid PROCESSING, transition_entry jid FAILED] \<rparr>)
             | (Inr snap, n) \<Rightarrow>
                 (Inr (),
                  s \<lparr> jobs := (jobs s)(jid \<mapsto>
                         j \<lparr> job_status := COMPLETED, job_snapshot := Some snap,
                             job_score := Some (compliance_score (build_checks (job_request j))),
                             job_issues :=
                               filter (\<lambda>c. status c \<noteq> Pass) (build_checks (job_request j)),
                             job_attempts := n \<rparr>),
                      audit := audit s @
                         [transition_entry jid PROCESSING, validation_entry jid,
                          transition_entry jid COMPLETED] \<rparr>)))"

text \<open>
  Modelled from the spec: the reviewer-initiated transition from \<open>COMPLETED\<close> to
  \<open>UNDER_REVIEW\<close> (backend, not among the sources).
\<close>

definition StartReview :: "nat \<Rightarrow> string \<Rightarrow> store \<Rightarrow> (orch_error + unit) \<times> store" where
  "StartReview jid reviewer s =
     (case jobs s jid of
        None \<Rightarrow> (Inl NotFound, s)
      | Some j \<Rightarrow>
          if job_status j \<noteq> COMPLETED then (Inl InvalidTransition, s)
          else
            (Inr (),
             s \<lparr> jobs := (jobs s)(jid \<mapsto> j \<lparr> job_status := UNDER_REVIEW \<rparr>),
                 audit := audit s @
                   [\<lparr> audit_job = jid, audit_action = ReviewAction,
                      audit_actor = reviewer, audit_after = Some UNDER_REVIEW \<rparr>] \<rparr>))"

text \<open>
  Modelled from the spec: Review of the Job Orchestrator (backend, not among the sources).
  It is valid only when the status is \<open>COMPLETED\<close> or \<open>UNDER_REVIEW\<close>, moves the job
  to \<open>APPROVED\<close> or \<open>REJECTED\<close> and records the reviewer; on any other status it fails
  with \<open>InvalidTransition\<close> and changes nothing.
\<close>

definition Review ::
  "nat \<Rightarrow> review_outcome \<Rightarrow> string \<Rightarrow> store \<Rightarrow> (orch_error + unit) \<times> store" where
  "Review jid outcome reviewer s =
     (case jobs s jid of
        None \<Rightarrow> (Inl NotFound, s)
      | Some j \<Rightarrow>
          if job_status j \<noteq> COMPLETED \<and> job_status j \<noteq> UNDER_REVIEW
          then (Inl InvalidTransition, s)
          else
            (let st = (case outcome of Approve \<Rightarrow> APPROVED | Reject \<Rightarrow> REJECTED) in
             (Inr (),
              s \<lparr> jobs := (jobs s)(jid \<mapsto> j \<lparr> job_status := st, job_reviewer := Some reviewer \<rparr>),
                  audit := audit s @
                    [\<lparr> audit_job = jid, audit_action = ReviewAction,
                       audit_actor = reviewer, audit_after = Some st \<rparr>] \<rparr>)))"

text \<open>
  Modelled from the spec: a run of the pipeline is any sequence of these operations from
  the empty store, a failed operation leaving the store as it was. The statuses a job has
  held, in order, are read off the audit trail.
\<close>

datatype orch_op =
    OpSubmit SOPData
  | OpAdvance "nat \<Rightarrow> SOPData \<Rightarrow> engine_error + ContentSnapshot" nat
  | OpStartReview nat string
  | OpReview nat review_outcome string

fun apply_orch_op :: "store \<Rightarrow> orch_op \<Rightarrow> store" where
  "apply_orch_op s (OpSubmit r) = snd (Submit r s)"
| "apply_orch_op s (OpAdvance engine jid) = snd (Advance engine jid s)"
| "apply_orch_op s (OpStartReview jid reviewer) = snd (StartReview jid reviewer s)"
| "apply_orch_op s (OpReview jid outcome reviewer) = snd (Review jid outcome reviewer s)"

definition run_orch :: "orch_op list \<Rightarrow> store" where
  "run_orch ops = foldl apply_orch_op empty_store ops"

text \<open>
  Modelled from the spec: the statuses a job has held, in the order its audit entries were
  appended (the audit trail belongs to the backend, not among the sources).
\<close>

definition history_of :: "nat \<Rightarrow> AuditEntry list \<Rightarrow> SOPStatus list" where
  "history_of jid es = List.map_filter audit_after (filter (\<lambda>e. audit_job e = jid) es)"

definition status_history :: "nat \<Rightarrow> store \<Rightarrow> SOPStatus list" where
  "status_history jid s = history_of jid (audit s)"

text \<open>
  Example inputs: the wizard's initial data with only the scenario's title typed in, the
  same with a description and one equipment item, that request without a department, and
  an engine that always succeeds with one body per requested section.
\<close>

definition scenario_defaults :: SOPData where
  "scenario_defaults = initial_wizard_data \<lparr> title := ''Equipment Cleaning SOP'' \<rparr>"

definition scenario_request :: SOPData where
  "scenario_request =
     scenario_defaults \<lparr> description := ''Cleaning of the tablet press'',
                         equipmentRequired := [''Tablet press''] \<rparr>"

definition scenario_no_department :: SOPData where
  "scenario_no_department = scenario_request \<lparr> department := None \<rparr>"

definition reliable_engine :: "nat \<Rightarrow> SOPData \<Rightarrow> engine_error + ContentSnapshot" where
  "reliable_engine attempt r =
     Inr \<lparr> snap_sections = map (\<lambda>s. (sec_title s, sec_content s)) (sections r),
           snap_engine = ''test-engine'' \<rparr>"

text \<open>
  What removing position \<open>index\<close> from \<open>xs\<close> means for a result \<open>ys\<close>: inside the
  bounds exactly that element is gone, the others keep their order and the length drops by
  one; outside the bounds nothing changes.
\<close>

definition removes_position :: "int \<Rightarrow> 'a list \<Rightarrow> 'a list \<Rightarrow> bool" where
  "removes_position index xs ys =
     (if 0 \<le> index \<and> index < int (length xs)
      then ys = take (nat index) xs @ drop (Suc (nat index)) xs \<and> Suc (length ys) = length xs
      else ys = xs)"

text \<open>
  The invariant of a run. A job's history is one of the traces that end in its current
  status, a job that does not exist has no history, and identifiers from \<open>next_id\<close> on
  are unused. Every operation other than Submit is a \<open>job_step\<close>: it leaves the store as
  it is or rewrites one existing job and appends audit entries of that job only.
\<close>

definition trace_ok :: "SOPStatus list \<Rightarrow> SOPStatus \<Rightarrow> bool" where
  "trace_ok h st =
     (case st of
        PENDING \<Rightarrow> h = [PENDING]
      | PROCESSING \<Rightarrow> h = [PENDING, PROCESSING]
      | COMPLETED \<Rightarrow> h = [PENDING, PROCESSING, COMPLETED]
      | FAILED \<Rightarrow> h = [PENDING, PROCESSING, FAILED]
      | UNDER_REVIEW \<Rightarrow> h = [PENDING, PROCESSING, COMPLETED, UNDER_REVIEW]
      | APPROVED \<Rightarrow> h = [PENDING, PROCESSING, COMPLETED, APPROVED]
                   \<or> h = [PENDING, PROCESSING, COMPLETED, UNDER_REVIEW, APPROVED]
      | REJECTED \<Rightarrow> h = [PENDING, PROCESSING, COMPLETED, REJECTED]
                   \<or> h = [PENDING, PROCESSING, COMPLETED, UNDER_REVIEW, REJECTED])"

definition job_ok :: "store \<Rightarrow> nat \<Rightarrow> bool" where
  "job_ok s jid =
     (case jobs s jid of
        None \<Rightarrow> status_history jid s = []
      | Some j \<Rightarrow> trace_ok (status_history jid s) (job_status j))"

definition store_inv :: "store \<Rightarrow> bool" where
  "store_inv s = ((\<forall>jid. job_ok s jid) \<and> (\<forall>jid. next_id s \<le> jid \<longrightarrow> jobs s jid = None))"

definition job_step :: "store \<Rightarrow> store \<Rightarrow> bool" where
  "job_step s s' =
     (s' = s \<or>
      (\<exists>jid j j' es.
         jobs s jid = Some j
         \<and> s' = s \<lparr> jobs := (jobs s)(jid \<mapsto> j'), audit := audit s @ es \<rparr>
         \<and> (\<forall>k. k \<noteq> jid \<longrightarrow> history_of k es = [])
         \<and> (\<forall>h. trace_ok h (job_status j) \<longrightarrow> trace_ok (h @ history_of jid es) (job_status j'))))"

section \<open>Compliance validation\<close>

lemma foldl_penalty:
  "foldl (\<lambda>s c. s - penalty (status c)) a cs
     = a - 25 * int (count_status Fail cs) - 5 * int (count_status Warning cs)"
proof (induction cs arbitrary: a)
  case Nil
  then show ?case by (simp add: count_status_def)
next
  case (Cons c cs)
  then show ?case by (cases "status c") (simp_all add: count_status_def)
qed

text \<open>
  Claim C1. The overall score of the compliance validation is 100 minus 25 for each check
  with outcome fail and minus 5 for each check with outcome warning, clamped to the interval
  from 0 to 100. The counts are the \<open>failed\<close> and \<open>warnings\<close> fields the review step
  computes; the score is the validator's rule run over the checks the step builds.
\<close>

theorem score_is_100_minus_penalties:
  "compliance_score (checks (performValidation d))
     = max 0 (min 100 (100 - 25 * int (failed (performValidation d))
                           - 5 * int (warnings (performValidation d))))"
  by (simp add: compliance_score_def performValidation_def Let_def foldl_penalty)

text \<open>
  Claim C2. The validation performs exactly seven checks, in this order: required
  descriptive fields present, at least one regulatory framework, at least three sections,
  safety text present, at least one quality checkpoint, at least one equipment item, and the
  FDA 21 CFR 211 framework included. A violated check 1 or 2 has outcome fail, a violated
  check 3 to 7 has outcome warning, and a satisfied check has outcome pass.
\<close>

theorem seven_checks_and_outcomes:
  "map (\<lambda>c. (name c, status c)) (checks (performValidation d)) =
     [ (''Basic Information'',
          if title d \<noteq> [] \<and> description d \<noteq> [] \<and> department d \<noteq> None \<and> priority d \<noteq> None
          then Pass else Fail),
       (''Regulatory Framework'', if frameworks d \<noteq> [] then Pass else Fail),
       (''SOP Sections'', if 3 \<le> length (sections d) then Pass else Warning),
       (''Safety Considerations'', if safetyConsiderations d \<noteq> [] then Pass else Warning),
       (''Quality Checkpoints'', if qualityCheckpoints d \<noteq> [] then Pass else Warning),
       (''Equipment Requirements'', if equipmentRequired d \<noteq> [] then Pass else Warning),
       (''Pharmaceutical Compliance'',
          if FDA_21_CFR_211 \<in> set (frameworks d) then Pass else Warning) ]"
  by (simp add: performValidation_def Let_def build_checks_def basic_info_present_def truthy_def)

text \<open>
  Claim C5. The validation is deterministic: run on the same data, it leaves the same
  results (counts and the list of check names, outcomes and messages) and the same score,
  whatever the component state was before each run.
\<close>

theorem validation_deterministic:
  "validationResults (validation_effect d s1) = validationResults (validation_effect d s2)
   \<and> compliance_score (checks (validationResults (validation_effect d s1)))
       = compliance_score (checks (validationResults (validation_effect d s2)))"
  by (simp add: validation_effect_def)

section \<open>Framework selection\<close>

lemma mandatoryFramework_iff: "mandatoryFramework f \<longleftrightarrow> f = FDA_21_CFR_211"
  by (cases f) (simp_all add: mandatoryFramework_def frameworkOptions_def)

text \<open>
  Claim C9. Toggling the mandatory framework FDA 21 CFR 211 while it is selected leaves the
  list unchanged; toggling a framework that is not in the list appends exactly it at the
  end; toggling a selected framework that is not mandatory removes every occurrence of it
  and keeps all other entries in place.
\<close>

theorem handleFrameworkToggle_cases:
  "(framework = FDA_21_CFR_211 \<and> framework \<in> set cur \<longrightarrow>
      handleFrameworkToggle framework cur = cur)
   \<and> (framework \<notin> set cur \<longrightarrow> handleFrameworkToggle framework cur = cur @ [framework])
   \<and> (framework \<noteq> FDA_21_CFR_211 \<and> framework \<in> set cur \<longrightarrow>
      handleFrameworkToggle framework cur = filter (\<lambda>f. f \<noteq> framework) cur)"
  by (simp add: handleFrameworkToggle_def mandatoryFramework_iff)

theorem handleFrameworkToggle_cases_witness:
  "handleFrameworkToggle FDA_21_CFR_211 [ICH_Q7, FDA_21_CFR_211] = [ICH_Q7, FDA_21_CFR_211]
   \<and> handleFrameworkToggle WHO_GMP [FDA_21_CFR_211] = [FDA_21_CFR_211, WHO_GMP]
   \<and> handleFrameworkToggle ICH_Q7 [ICH_Q7, FDA_21_CFR_211, ICH_Q7] = [FDA_21_CFR_211]"
  using handleFrameworkToggle_cases [of FDA_21_CFR_211 "[ICH_Q7, FDA_21_CFR_211]"]
    handleFrameworkToggle_cases [of WHO_GMP "[FDA_21_CFR_211]"]
    handleFrameworkToggle_cases [of ICH_Q7 "[ICH_Q7, FDA_21_CFR_211, ICH_Q7]"]
  by simp

section \<open>Content details\<close>

lemma filter_enumerate:
  "map snd (filter (\<lambda>p. int (fst p) \<noteq> idx) (enumerate n xs)) =
     (if int n \<le> idx \<and> idx < int n + int (length xs)
      then take (nat idx - n) xs @ drop (Suc (nat idx - n)) xs else xs)"
proof (induction xs arbitrary: n)
  case Nil
  then show ?case by simp
next
  case (Cons x xs)
  show ?case
  proof (cases "idx = int n")
    case True
    then show ?thesis using Cons [of "Suc n"] by simp
  next
    case False
    show ?thesis
    proof (cases "int n < idx \<and> idx < int n + int (length (x # xs))")
      case True
      then have "nat idx - n = Suc (nat idx - Suc n)" by linarith
      with True False show ?thesis using Cons [of "Suc n"] by simp
    next
      case out: False
      with False show ?thesis using Cons [of "Suc n"] by auto
    qed
  qed
qed

lemma filter_index_removes: "removes_position index xs (filter_index index xs)"
proof (cases "0 \<le> index \<and> index < int (length xs)")
  case True
  then have "nat index < length xs" by linarith
  then have "Suc (length (take (nat index) xs @ drop (Suc (nat index)) xs)) = length xs"
    by simp
  moreover have "filter_index index xs = take (nat index) xs @ drop (Suc (nat index)) xs"
    using True filter_enumerate [of index 0 xs] by (simp add: filter_index_def)
  ultimately show ?thesis using True by (simp add: removes_position_def)
next
  case False
  then have "filter_index index xs = xs"
    using filter_enumerate [of index 0 xs] by (auto simp: filter_index_def)
  with False show ?thesis by (simp add: removes_position_def)
qed

text \<open>
  Claim C10. The three item removals are total: for every list and every integer index,
  an index within the bounds gives the list without exactly that element, the others in
  their order and the length one less; an index outside the bounds gives the list unchanged.
\<close>

theorem remove_item_total:
  "removes_position index (equipmentItems st) (equipmentItems (removeEquipmentItem index st))
   \<and> removes_position index (materialItems st) (materialItems (removeMaterialItem index st))
   \<and> removes_position index (checkpointItems st)
        (checkpointItems (removeCheckpointItem index st))"
  by (simp add: removeEquipmentItem_def removeMaterialItem_def removeCheckpointItem_def
      filter_index_removes)

theorem remove_item_total_witness:
  "equipmentItems (removeEquipmentItem 1
      (default_content_state \<lparr> equipmentItems := [''Tablet press'', ''Brush'', ''Swab''] \<rparr>))
     = [''Tablet press'', ''Swab'']
   \<and> materialItems (removeMaterialItem 2
      (default_content_state \<lparr> materialItems := [''Ethanol'', ''Water''] \<rparr>))
     = [''Ethanol'', ''Water'']
   \<and> checkpointItems (removeCheckpointItem (- 1)
      (default_content_state \<lparr> checkpointItems := [''Visual check''] \<rparr>))
     = [''Visual check'']"
  using remove_item_total [of 1 "default_content_state \<lparr> equipmentItems := [''Tablet press'', ''Brush'', ''Swab''] \<rparr>"]
    remove_item_total [of 2 "default_content_state \<lparr> materialItems := [''Ethanol'', ''Water''] \<rparr>"]
    remove_item_total [of "- 1" "default_content_state \<lparr> checkpointItems := [''Visual check''] \<rparr>"]
  by (simp add: removes_position_def)

lemma addSection_keeps_order:
  "order_is_position (sectionFields st) \<Longrightarrow> order_is_position (sectionFields (addSection st))"
  by (simp add: order_is_position_def addSection_def)

text \<open>
  Claim C8. After every sequence of section additions and removals from the default list,
  each section's order equals its 1-based position. Adding keeps this, removing does not
  renumber: removing the first default section and adding one gives the orders 2, 3, 4, 5, 5,
  which are neither the positions nor pairwise distinct.
\<close>

theorem remove_then_add_repeats_order:
  "map sec_order
     (sectionFields (run_section_ops [RemoveSection 0, AddSection] default_content_state))
     = [2, 3, 4, 5, 5]
   \<and> \<not> order_is_position
        (sectionFields (run_section_ops [RemoveSection 0, AddSection] default_content_state))
   \<and> \<not> distinct (map sec_order
        (sectionFields (run_section_ops [RemoveSection 0, AddSection] default_content_state)))"
  by (simp add: run_section_ops_def default_content_state_def default_sections_def
      click_removeSection_def removeSection_def addSection_def order_is_position_def)

section \<open>Job lifecycle\<close>

lemma history_of_append [simp]:
  "history_of jid (xs @ ys) = history_of jid xs @ history_of jid ys"
  by (simp add: history_of_def List.map_filter_def)

lemma history_of_Nil [simp]: "history_of jid [] = []"
  by (simp add: history_of_def List.map_filter_def)

lemma history_of_Cons:
  "history_of jid (e # es) =
     (if audit_job e = jid then (case audit_after e of None \<Rightarrow> [] | Some st \<Rightarrow> [st]) else [])
     @ history_of jid es"
  by (simp add: history_of_def List.map_filter_def split: option.splits)

lemma inv_empty: "store_inv empty_store"
  by (simp add: store_inv_def job_ok_def empty_store_def status_history_def)

lemma job_step_inv:
  assumes "job_step s s'" and "store_inv s"
  shows "store_inv s'"
proof (cases "s' = s")
  case True
  with assms show ?thesis by simp
next
  case False
  with assms(1) obtain jid j j' es where
    j: "jobs s jid = Some j" and
    s': "s' = s \<lparr> jobs := (jobs s)(jid \<mapsto> j'), audit := audit s @ es \<rparr>" and
    other: "\<And>k. k \<noteq> jid \<Longrightarrow> history_of k es = []" and
    tr: "\<And>h. trace_ok h (job_status j) \<Longrightarrow> trace_ok (h @ history_of jid es) (job_status j')"
    unfolding job_step_def by blast
  have ok: "job_ok s k" for k using assms(2) by (simp add: store_inv_def)
  have "job_ok s' k" for k
  proof (cases "k = jid")
    case True
    from ok [of jid] j have "trace_ok (status_history jid s) (job_status j)"
      by (simp add: job_ok_def)
    from tr [OF this] show ?thesis
      by (simp add: True s' job_ok_def status_history_def)
  next
    case False
    with ok [of k] other [of k] show ?thesis
      by (simp add: s' job_ok_def status_history_def split: option.splits)
  qed
  moreover have "jobs s' k = None" if "next_id s' \<le> k" for k
  proof -
    from that have le: "next_id s \<le> k" by (simp add: s')
    with assms(2) have "jobs s k = None" by (simp add: store_inv_def)
    with j have "k \<noteq> jid" by auto
    with \<open>jobs s k = None\<close> show ?thesis by (simp add: s')
  qed
  ultimately show ?thesis by (simp add: store_inv_def)
qed

lemma Advance_step: "job_step s (snd (Advance engine jid s))"
proof (cases "jobs s jid")
  case None
  then show ?thesis by (simp add: Advance_def job_step_def)
next
  case (Some j)
  show ?thesis
  proof (cases "job_status j = PENDING")
    case False
    with Some show ?thesis by (simp add: Advance_def job_step_def)
  next
    case True
    obtain res n where
      r: "generate_with_retry (\<lambda>a. engine a (job_request j)) 1 (max_attempts - 1) = (res, n)"
      by (cases "generate_with_retry (\<lambda>a. engine a (job_request j)) 1 (max_attempts - 1)")
    show ?thesis
    proof (cases res)
      case (Inl e)
      have "\<exists>j' es. snd (Advance engine jid s) = s \<lparr> jobs := (jobs s)(jid \<mapsto> j'), audit := audit s @ es \<rparr>
         \<and> (\<forall>k. k \<noteq> jid \<longrightarrow> history_of k es = [])
         \<and> (\<forall>h. trace_ok h (job_status j) \<longrightarrow> trace_ok (h @ history_of jid es) (job_status j'))"
        apply (rule exI [of _ "j \<lparr> job_status := FAILED, job_error := Some e, job_attempts := n \<rparr>"])
        apply (rule exI [of _ "[transition_entry jid PROCESSING, transition_entry jid FAILED]"])
        using Some True r Inl
        by (simp add: Advance_def history_of_Cons transition_entry_def trace_ok_def)
      with Some show ?thesis unfolding job_step_def by blast
    next
      case (Inr snap)
      have "\<exists>j' es. snd (Advance engine jid s) = s \<lparr> jobs := (jobs s)(jid \<mapsto> j'), audit := audit s @ es \<rparr>
         \<and> (\<forall>k. k \<noteq> jid \<longrightarrow> history_of k es = [])
         \<and> (\<forall>h. trace_ok h (job_status j) \<longrightarrow> trace_ok (h @ history_of jid es) (job_status j'))"
        apply (rule exI [of _ "j \<lparr> job_status := COMPLETED, job_snapshot := Some snap,
                             job_score := Some (compliance_score (build_checks (job_request j))),
                             job_issues :=
                               filter (\<lambda>c. status c \<noteq> Pass) (build_checks (job_request j)),
                             job_attempts := n \<rparr>"])
        apply (rule exI [of _ "[transition_entry jid PROCESSING, validation_entry jid,
                          transition_entry jid COMPLETED]"])
        using Some True r Inr
        by (simp add: Advance_def history_of_Cons transition_entry_def validation_entry_def trace_ok_def)
      with Some show ?thesis unfolding job_step_def by blast
    qed
  qed
qed

lemma StartReview_step: "job_step s (snd (StartReview jid reviewer s))"
proof (cases "jobs s jid")
  case None
  then show ?thesis by (simp add: StartReview_def job_step_def)
next
  case (Some j)
  show ?thesis
  proof (cases "job_status j = COMPLETED")
    case False
    with Some show ?thesis by (simp add: StartReview_def job_step_def)
  next
    case True
    have "\<exists>j' es. snd (StartReview jid reviewer s)
             = s \<lparr> jobs := (jobs s)(jid \<mapsto> j'), audit := audit s @ es \<rparr>
         \<and> (\<forall>k. k \<noteq> jid \<longrightarrow> history_of k es = [])
         \<and> (\<forall>h. trace_ok h (job_status j) \<longrightarrow> trace_ok (h @ history_of jid es) (job_status j'))"
      apply (rule exI [of _ "j \<lparr> job_status := UNDER_REVIEW \<rparr>"])
      apply (rule exI [of _ "[\<lparr> audit_job = jid, audit_action = ReviewAction,
                      audit_actor = reviewer, audit_after = Some UNDER_REVIEW \<rparr>]"])
      using Some True
      by (simp add: StartReview_def history_of_Cons trace_ok_def)
    with Some show ?thesis unfolding job_step_def by blast
  qed
qed

lemma Review_step: "job_step s (snd (Review jid outcome reviewer s))"
proof (cases "jobs s jid")
  case None
  then show ?thesis by (simp add: Review_def job_step_def)
next
  case (Some j)
  show ?thesis
  proof (cases "job_status j = COMPLETED \<or> job_status j = UNDER_REVIEW")
    case False
    with Some show ?thesis by (simp add: Review_def job_step_def)
  next
    case True
    define st where "st = (case outcome of Approve \<Rightarrow> APPROVED | Reject \<Rightarrow> REJECTED)"
    have "\<exists>j' es. snd (Review jid outcome reviewer s)
             = s \<lparr> jobs := (jobs s)(jid \<mapsto> j'), audit := audit s @ es \<rparr>
         \<and> (\<forall>k. k \<noteq> jid \<longrightarrow> history_of k es = [])
         \<and> (\<forall>h. trace_ok h (job_status j) \<longrightarrow> trace_ok (h @ history_of jid es) (job_status j'))"
      apply (rule exI [of _ "j \<lparr> job_status := st, job_reviewer := Some reviewer \<rparr>"])
      apply (rule exI [of _ "[\<lparr> audit_job = jid, audit_action = ReviewAction,
                       audit_actor = reviewer, audit_after = Some st \<rparr>]"])
      using Some True
      by (cases outcome) (auto simp: Review_def history_of_Cons trace_ok_def st_def Let_def)
    with Some show ?thesis unfolding job_step_def by blast
  qed
qed

lemma Submit_inv:
  assumes "store_inv s"
  shows "store_inv (snd (Submit r s))"
proof (cases "request_shape_ok r")
  case False
  with assms show ?thesis by (simp add: Submit_def)
next
  case True
  define s' where "s' = snd (Submit r s)"
  have fresh: "jobs s (next_id s) = None" using assms by (simp add: store_inv_def)
  have ok: "job_ok s k" for k using assms by (simp add: store_inv_def)
  have "job_ok s' k" for k
  proof (cases "k = next_id s")
    case eq: True
    from ok [of "next_id s"] fresh have "status_history (next_id s) s = []"
      by (simp add: job_ok_def)
    then show ?thesis using True eq
      by (simp add: s'_def Submit_def job_ok_def status_history_def history_of_Cons
          new_job_def trace_ok_def)
  next
    case False
    with ok [of k] True show ?thesis
      by (simp add: s'_def Submit_def job_ok_def status_history_def history_of_Cons
          split: option.splits)
  qed
  moreover have "jobs s' k = None" if "next_id s' \<le> k" for k
  proof -
    from that True have "Suc (next_id s) \<le> k" by (simp add: s'_def Submit_def)
    then have "next_id s \<le> k" "k \<noteq> next_id s" by simp_all
    with assms True show ?thesis by (simp add: s'_def Submit_def store_inv_def)
  qed
  ultimately show ?thesis unfolding s'_def by (simp add: store_inv_def)
qed

lemma inv_op: "store_inv s \<Longrightarrow> store_inv (apply_orch_op s x)"
  by (cases x)
    (simp_all add: Submit_inv job_step_inv [OF Advance_step] job_step_inv [OF StartReview_step]
      job_step_inv [OF Review_step])

lemma inv_foldl: "store_inv s \<Longrightarrow> store_inv (foldl apply_orch_op s ops)"
  by (induction ops arbitrary: s) (simp_all add: inv_op)

lemma inv_run: "store_inv (run_orch ops)"
  by (simp add: run_orch_def inv_foldl inv_empty)

lemma trace_ok_subseq:
  "trace_ok h st \<Longrightarrow>
     subseq h [PENDING, PROCESSING, COMPLETED, UNDER_REVIEW, APPROVED]
   \<or> subseq h [PENDING, PROCESSING, COMPLETED, UNDER_REVIEW, REJECTED]
   \<or> subseq h [PENDING, PROCESSING, FAILED]"
  by (cases st) (auto simp: trace_ok_def)

lemma history_subseq:
  "subseq (status_history jid (run_orch ops)) [PENDING, PROCESSING, COMPLETED, UNDER_REVIEW, APPROVED]
   \<or> subseq (status_history jid (run_orch ops)) [PENDING, PROCESSING, COMPLETED, UNDER_REVIEW, REJECTED]
   \<or> subseq (status_history jid (run_orch ops)) [PENDING, PROCESSING, FAILED]"
proof -
  have ok: "job_ok (run_orch ops) jid" using inv_run [of ops] by (simp add: store_inv_def)
  show ?thesis
  proof (cases "jobs (run_orch ops) jid")
    case None
    with ok have "status_history jid (run_orch ops) = []" by (simp add: job_ok_def)
    then show ?thesis by simp
  next
    case (Some j)
    with ok have "trace_ok (status_history jid (run_orch ops)) (job_status j)"
      by (simp add: job_ok_def)
    then show ?thesis by (rule trace_ok_subseq)
  qed
qed

text \<open>
  Claim C7. A job's status is one of the seven values of the status enumeration, and every
  sequence of statuses observed over a job's lifetime (any subsequence of the statuses the
  job has held in a run of the pipeline) is a subsequence of pending, processing, then
  completed, under review and approved or rejected, or of pending, processing, failed.
\<close>

theorem statuses_follow_lifecycle:
  "(UNIV :: SOPStatus set)
      = {PENDING, PROCESSING, COMPLETED, FAILED, UNDER_REVIEW, APPROVED, REJECTED}
   \<and> (subseq obs (status_history jid (run_orch ops)) \<longrightarrow>
        subseq obs [PENDING, PROCESSING, COMPLETED, UNDER_REVIEW, APPROVED]
      \<or> subseq obs [PENDING, PROCESSING, COMPLETED, UNDER_REVIEW, REJECTED]
      \<or> subseq obs [PENDING, PROCESSING, FAILED])"
proof -
  have "x \<in> {PENDING, PROCESSING, COMPLETED, FAILED, UNDER_REVIEW, APPROVED, REJECTED}" for x
    by (cases x) simp_all
  then have u: "(UNIV :: SOPStatus set)
      = {PENDING, PROCESSING, COMPLETED, FAILED, UNDER_REVIEW, APPROVED, REJECTED}"
    by blast
  have "subseq obs [PENDING, PROCESSING, COMPLETED, UNDER_REVIEW, APPROVED]
      \<or> subseq obs [PENDING, PROCESSING, COMPLETED, UNDER_REVIEW, REJECTED]
      \<or> subseq obs [PENDING, PROCESSING, FAILED]"
    if "subseq obs (status_history jid (run_orch ops))"
    using history_subseq [of jid ops] that subseq_order.trans by blast
  with u show ?thesis by blast
qed

theorem statuses_follow_lifecycle_witness:
  "status_history 0
     (run_orch [OpSubmit scenario_request, OpAdvance reliable_engine 0,
                OpStartReview 0 ''qa'', OpReview 0 Approve ''qa''])
     = [PENDING, PROCESSING, COMPLETED, UNDER_REVIEW, APPROVED]
   \<and> (subseq [PENDING, COMPLETED, APPROVED]
          [PENDING, PROCESSING, COMPLETED, UNDER_REVIEW, APPROVED]
      \<or> subseq [PENDING, COMPLETED, APPROVED]
          [PENDING, PROCESSING, COMPLETED, UNDER_REVIEW, REJECTED]
      \<or> subseq [PENDING, COMPLETED, APPROVED] [PENDING, PROCESSING, FAILED])"
proof -
  have h: "status_history 0
     (run_orch [OpSubmit scenario_request, OpAdvance reliable_engine 0,
                OpStartReview 0 ''qa'', OpReview 0 Approve ''qa''])
     = [PENDING, PROCESSING, COMPLETED, UNDER_REVIEW, APPROVED]"
    by (simp add: run_orch_def empty_store_def Submit_def request_shape_ok_def scenario_request_def
     scenario_defaults_def initial_wizard_data_def new_job_def Advance_def generate_with_retry.simps
     reliable_engine_def max_attempts_def StartReview_def Review_def status_history_def history_of_def
     List.map_filter_def transition_entry_def validation_entry_def)
  have obs: "subseq [PENDING, COMPLETED, APPROVED]
     (status_history 0
       (run_orch [OpSubmit scenario_request, OpAdvance reliable_engine 0,
                  OpStartReview 0 ''qa'', OpReview 0 Approve ''qa'']))"
    by (simp add: h)
  from statuses_follow_lifecycle [THEN conjunct2, rule_format, OF obs] h
  show ?thesis by blast
qed

section \<open>Submission, the Generate action and completion\<close>

lemma failed_iff:
  "0 < failed (performValidation d) \<longleftrightarrow> \<not> basic_info_present d \<or> frameworks d = []"
  by (simp add: performValidation_def Let_def build_checks_def count_status_def)

lemma canGenerate_no_fail: "canGenerate d \<Longrightarrow> failed (performValidation d) = 0"
  using failed_iff [of d]
  by (simp add: canGenerate_def validateStep_def basic_info_present_def)

text \<open>
  The title test on examples: a plain title passes, a title of white space only (here a
  space, a no-break space and a line separator) and the empty title do not. The scenario's
  request passes the wizard's step validation, so its Generate button is enabled.
\<close>

lemma trim_examples:
  "trim_nonempty ''Purpose''
   \<and> \<not> trim_nonempty [CHR 0x20, CHR 0xC2, CHR 0xA0, CHR 0xE2, CHR 0x80, CHR 0xA8]
   \<and> trim_nonempty [CHR 0xC2, CHR 0xA0, CHR 0x41]
   \<and> \<not> trim_nonempty ''''"
  by (simp add: trim_nonempty_def all_whitespace.simps whitespace_prefix_def
      whitespace_encodings_def)

lemma scenario_can_generate:
  "canGenerate scenario_request
   \<and> \<not> generate_disabled (canGenerate scenario_request) (performValidation scenario_request) False"
proof -
  have cg: "canGenerate scenario_request"
    by (simp add: canGenerate_def validateStep_def scenario_request_def scenario_defaults_def
        initial_wizard_data_def truthy_def trim_nonempty_def all_whitespace.simps
        whitespace_prefix_def whitespace_encodings_def)
  with canGenerate_no_fail [OF cg] show ?thesis by (simp add: generate_disabled_def)
qed

lemma Advance_success:
  assumes "jobs s jid = Some j" and "job_status j = PENDING"
    and "fst (generate_with_retry (\<lambda>a. engine a (job_request j)) 1 (max_attempts - 1)) = Inr snap"
  shows "map_option job_status (jobs (snd (Advance engine jid s)) jid) = Some COMPLETED"
    and "map_option job_score (jobs (snd (Advance engine jid s)) jid)
           = Some (Some (compliance_score (build_checks (job_request j))))"
    and "map_option job_issues (jobs (snd (Advance engine jid s)) jid)
           = Some (filter (\<lambda>c. status c \<noteq> Pass) (build_checks (job_request j)))"
  using assms by (auto simp: Advance_def split: prod.splits sum.splits)

lemma Submit_accepts:
  "request_shape_ok r \<Longrightarrow>
     jobs (snd (Submit r empty_store)) 0 = Some (new_job r)"
  by (simp add: Submit_def empty_store_def)

lemma submitted_scenario:
  "jobs (snd (Submit scenario_request empty_store)) 0 = Some (new_job scenario_request)"
  by (simp add: Submit_def empty_store_def request_shape_ok_def scenario_request_def
      scenario_defaults_def initial_wizard_data_def)

lemma reliable_engine_succeeds:
  "fst (generate_with_retry (\<lambda>a. reliable_engine a r) 1 (max_attempts - 1))
     = Inr \<lparr> snap_sections = map (\<lambda>s. (sec_title s, sec_content s)) (sections r),
             snap_engine = ''test-engine'' \<rparr>"
  by (simp add: generate_with_retry.simps reliable_engine_def)

text \<open>
  Claim C4. A submission whose framework list is empty is rejected with
  \<open>InvalidRequest\<close> and leaves the store as it was, so no job is created and none
  reaches pending. The wizard does not issue such a request either: the framework step's
  Continue button is disabled, \<open>handleNext\<close> stays on that step, and the Generate button
  is disabled whatever the validation results cell holds.
\<close>

theorem empty_frameworks_rejected:
  "frameworks r = [] \<Longrightarrow>
     Submit r s = (Inl InvalidRequest, s)
     \<and> framework_submit_disabled canProceed (frameworks r)
     \<and> handleNext 1 r = 1
     \<and> generate_disabled (canGenerate r) vr isGenerating"
  by (simp add: Submit_def request_shape_ok_def framework_submit_disabled_def handleNext_def
      validateStep_def generate_disabled_def canGenerate_def)

theorem empty_frameworks_rejected_witness:
  "Submit (scenario_request \<lparr> frameworks := [] \<rparr>) empty_store = (Inl InvalidRequest, empty_store)
   \<and> framework_submit_disabled True []
   \<and> handleNext 1 (scenario_request \<lparr> frameworks := [] \<rparr>) = 1
   \<and> generate_disabled (canGenerate (scenario_request \<lparr> frameworks := [] \<rparr>))
        (performValidation (scenario_request \<lparr> frameworks := [] \<rparr>)) False"
proof -
  have "frameworks (scenario_request \<lparr> frameworks := [] \<rparr>) = []" by simp
  from empty_frameworks_rejected
    [OF this, of empty_store True "performValidation (scenario_request \<lparr> frameworks := [] \<rparr>)"
       False]
  show ?thesis by simp
qed

text \<open>
  Claim C3. Validation never gates completion. A pending job whose generation succeeds
  moves to completed whatever its checks say: its score and its issues, fail-level ones
  included, are attached and nothing else depends on them. In the wizard the results of the
  checks do not decide whether the Generate button is available either: the button is
  disabled exactly when \<open>canGenerate\<close> is false or a generation is running, because
  the data that pass the wizard's step validation have no failed check.
\<close>

theorem validation_never_gates_completion:
  "(jobs s jid = Some j \<and> job_status j = PENDING
      \<and> fst (generate_with_retry (\<lambda>a. engine a (job_request j)) 1 (max_attempts - 1)) = Inr snap
    \<longrightarrow> map_option job_status (jobs (snd (Advance engine jid s)) jid) = Some COMPLETED
      \<and> map_option job_score (jobs (snd (Advance engine jid s)) jid)
           = Some (Some (compliance_score (build_checks (job_request j))))
      \<and> map_option job_issues (jobs (snd (Advance engine jid s)) jid)
           = Some (filter (\<lambda>c. status c \<noteq> Pass) (build_checks (job_request j))))
   \<and> (generate_disabled (canGenerate d) (performValidation d) isGenerating
        \<longleftrightarrow> \<not> canGenerate d \<or> isGenerating)"
  using Advance_success [of s jid j engine snap] canGenerate_no_fail [of d]
  by (auto simp: generate_disabled_def)

theorem validation_never_gates_completion_witness:
  "map_option job_status
     (jobs (snd (Advance reliable_engine 0 (snd (Submit scenario_no_department empty_store)))) 0)
     = Some COMPLETED
   \<and> map_option job_score
     (jobs (snd (Advance reliable_engine 0 (snd (Submit scenario_no_department empty_store)))) 0)
     = Some (Some 65)
   \<and> map_option (map status \<circ> job_issues)
     (jobs (snd (Advance reliable_engine 0 (snd (Submit scenario_no_department empty_store)))) 0)
     = Some [Fail, Warning, Warning]"
proof -
  have sc: "compliance_score (build_checks scenario_no_department) = 65"
    and iss: "map status (filter (\<lambda>c. status c \<noteq> Pass) (build_checks scenario_no_department))
                = [Fail, Warning, Warning]"
    by (simp_all add: compliance_score_def build_checks_def scenario_no_department_def
        scenario_request_def scenario_defaults_def initial_wizard_data_def basic_info_present_def
        truthy_def)
  have sub: "jobs (snd (Submit scenario_no_department empty_store)) 0
               = Some (new_job scenario_no_department)"
    by (rule Submit_accepts)
      (simp add: request_shape_ok_def scenario_no_department_def scenario_request_def
        scenario_defaults_def initial_wizard_data_def)
  have pre: "jobs (snd (Submit scenario_no_department empty_store)) 0
               = Some (new_job scenario_no_department)
      \<and> job_status (new_job scenario_no_department) = PENDING
      \<and> fst (generate_with_retry
               (\<lambda>a. reliable_engine a (job_request (new_job scenario_no_department)))
               1 (max_attempts - 1))
          = Inr \<lparr> snap_sections =
                    map (\<lambda>s. (sec_title s, sec_content s))
                      (sections (job_request (new_job scenario_no_department))),
                  snap_engine = ''test-engine'' \<rparr>"
    using reliable_engine_succeeds [of scenario_no_department]
    by (simp add: sub new_job_def)
  from validation_never_gates_completion
    [where engine = reliable_engine and jid = 0 and j = "new_job scenario_no_department"
       and s = "snd (Submit scenario_no_department empty_store)",
     THEN conjunct1, rule_format, OF pre]
  show ?thesis by (auto simp: sc iss new_job_def)
qed



end
